theory Spec2Isabelle
  imports Complex_Main
begin

section \<open>OpenID Connect plugins of keystoneauth1 (identity/v3/oidc.py)\<close>

text \<open>
  The module defines a base class \<open>_OidcBase\<close> with the two network steps
  \<open>_get_access_token\<close> and \<open>_get_keystone_token\<close>, and two subclasses,
  \<open>OidcPassword\<close> and \<open>OidcAuthorizationCode\<close>, whose method
  \<open>get_unscoped_auth_ref\<close> builds a payload, posts it to the token endpoint, reads
  the access token out of the JSON answer and posts it to the federated token URL.

  Python objects are mutable, so every method is a function on a state that holds the
  plugin instance and the session, and returns the new state next to its result. An
  exception is the left summand of the result.
\<close>

subsection \<open>Values\<close>

text \<open>
  The constructor arguments \<open>username\<close>, \<open>password\<close>, \<open>redirect_uri\<close> and
  \<open>code\<close> default to Python's \<open>None\<close>; every other argument is documented as a
  string.
\<close>

datatype pyval = PyNone | PyStr string

text \<open>What \<open>response.json()\<close> returns: a decoded JSON document.\<close>

datatype json =
    JNull
  | JBool bool
  | JNum rat
  | JStr string
  | JArr "json list"
  | JObj "(string \<times> json) list"

text \<open>
  The exceptions a call can end with. \<open>KeyError\<close> is what a dict subscript raises on
  a missing key (the specification calls it MalformedResponseError); \<open>TypeError\<close> is
  raised by a subscript on a value that is not a dict and by \<open>str + x\<close> for an \<open>x\<close>
  that is not a string; \<open>ValueError\<close> by \<open>json()\<close> on a body that is not JSON.
  \<open>TransportError\<close> and \<open>TokenEndpointError\<close> come from the session.
\<close>

datatype exn =
    TransportError
  | TokenEndpointError int "json option"
  | KeyError string
  | TypeError
  | ValueError

subsection \<open>The session\<close>

text \<open>
  One outbound request, with the keyword arguments the module passes to
  \<open>session.post\<close>; an argument that is not passed is \<open>None\<close>.
\<close>

record request =
  http_method :: string
  url :: string
  requests_auth :: "(string \<times> string) option"
  data :: "(string \<rightharpoonup> pyval) option"
  headers :: "(string \<rightharpoonup> string) option"
  authenticated :: "bool option"

text \<open>A response: its status and its body, \<open>None\<close> when the body is not JSON.\<close>

record response =
  status :: int
  jsonBody :: "json option"

text \<open>
  The session object: the remote side, which answers a request knowing the requests
  sent before it (\<open>None\<close>: the transport fails), and the log of the requests sent.
\<close>

record session =
  transport :: "request list \<Rightarrow> request \<Rightarrow> response option"
  sent :: "request list"

text \<open>A status of the 2xx class.\<close>

definition is_2xx :: "response \<Rightarrow> bool" where
  "is_2xx r = (200 \<le> status r \<and> status r < 300)"

text \<open>
  Modelled from the spec: \<open>keystoneauth1.session.Session.post\<close> is not part of the
  sources at hand. The specification gives its contract as
  \<open>post(url, formData, clientAuth?, headers?, authenticated) \<rightarrow> Response{status, jsonBody}\<close>,
  a transport failure propagating as TransportError and a non-2xx status surfacing as
  TokenEndpointError carrying the status and the body. The request is recorded as sent
  in every case.
\<close>

definition session_post ::
  "string \<Rightarrow> (string \<times> string) option \<Rightarrow> (string \<rightharpoonup> pyval) option \<Rightarrow>
   (string \<rightharpoonup> string) option \<Rightarrow> bool option \<Rightarrow> session \<Rightarrow> (exn + response) \<times> session"
where
  "session_post u ra d hs au s =
     (let rq = \<lparr>http_method = ''POST'', url = u, requests_auth = ra, data = d,
                headers = hs, authenticated = au\<rparr>;
          s' = s\<lparr>sent := sent s @ [rq]\<rparr>
      in case transport s (sent s) rq of
           None \<Rightarrow> (Inl TransportError, s')
         | Some r \<Rightarrow>
             if is_2xx r then (Inr r, s')
             else (Inl (TokenEndpointError (status r) (jsonBody r)), s'))"

text \<open>\<open>response.json()\<close>\<close>

definition json_of :: "response \<Rightarrow> exn + json" where
  "json_of r = (case jsonBody r of None \<Rightarrow> Inl ValueError | Some j \<Rightarrow> Inr j)"

text \<open>
  The subscript \<open>d[k]\<close> with a string \<open>k\<close>: a lookup in a dict, a \<open>KeyError\<close> when
  the key is missing, a \<open>TypeError\<close> on a list, a string, a number, a boolean or
  \<open>None\<close>.
\<close>

fun getitem :: "json \<Rightarrow> string \<Rightarrow> exn + json" where
  "getitem (JObj kvs) k = (case map_of kvs k of None \<Rightarrow> Inl (KeyError k) | Some v \<Rightarrow> Inr v)"
| "getitem _ k = Inl TypeError"

text \<open>Whether a decoded JSON document is an object, that is, a Python dict.\<close>

fun is_dict :: "json \<Rightarrow> bool" where
  "is_dict (JObj kvs) = True"
| "is_dict _ = False"

text \<open>The concatenation \<open>s + x\<close> of a string \<open>s\<close> with a decoded JSON value \<open>x\<close>.\<close>

fun str_add :: "string \<Rightarrow> json \<Rightarrow> exn + string" where
  "str_add s (JStr t) = Inr (s @ t)"
| "str_add s _ = Inl TypeError"

subsection \<open>The plugin classes\<close>

record oidc_base =
  auth_url :: string
  identity_provider :: string
  protocol :: string
  client_id :: string
  client_secret :: string
  access_token_endpoint :: string
  grant_type :: string
  access_token_type :: string

record oidc_password = oidc_base +
  username :: pyval
  password :: pyval
  scope :: string

record oidc_authorization_code = oidc_base +
  redirect_uri :: pyval
  code :: pyval

text \<open>
  The constructors. An optional argument is \<open>None\<close> when the caller leaves it out,
  and then takes the default of the signature. The first three fields are those that
  the constructor of the federation base class keeps.
\<close>

definition OidcBase_init ::
  "string \<Rightarrow> string \<Rightarrow> string \<Rightarrow> string \<Rightarrow> string \<Rightarrow> string \<Rightarrow> string \<Rightarrow> string \<Rightarrow> oidc_base"
where
  "OidcBase_init au idp pr cid cs ate gt att =
     \<lparr>auth_url = au, identity_provider = idp, protocol = pr,
      client_id = cid, client_secret = cs, access_token_endpoint = ate,
      grant_type = gt, access_token_type = att\<rparr>"

definition OidcPassword_init ::
  "string \<Rightarrow> string \<Rightarrow> string \<Rightarrow> string \<Rightarrow> string \<Rightarrow> string \<Rightarrow>
   string option \<Rightarrow> string option \<Rightarrow> pyval \<Rightarrow> pyval \<Rightarrow> string option \<Rightarrow> oidc_password"
where
  "OidcPassword_init au idp pr cid cs ate gt att un pw sc =
     oidc_base.extend
       (OidcBase_init au idp pr cid cs ate
          (case gt of None \<Rightarrow> ''password'' | Some g \<Rightarrow> g)
          (case att of None \<Rightarrow> ''access_token'' | Some t \<Rightarrow> t))
       (oidc_password.fields un pw (case sc of None \<Rightarrow> ''profile'' | Some c \<Rightarrow> c))"

definition OidcAuthorizationCode_init ::
  "string \<Rightarrow> string \<Rightarrow> string \<Rightarrow> string \<Rightarrow> string \<Rightarrow> string \<Rightarrow>
   string option \<Rightarrow> string option \<Rightarrow> pyval \<Rightarrow> pyval \<Rightarrow> oidc_authorization_code"
where
  "OidcAuthorizationCode_init au idp pr cid cs ate gt att ru co =
     oidc_base.extend
       (OidcBase_init au idp pr cid cs ate
          (case gt of None \<Rightarrow> ''authorization_code'' | Some g \<Rightarrow> g)
          (case att of None \<Rightarrow> ''access_token'' | Some t \<Rightarrow> t))
       (oidc_authorization_code.fields ru co)"

text \<open>The objects a call works on: the plugin instance and the session.\<close>

record 'p state =
  self_obj :: 'p
  session_obj :: session

subsection \<open>The two network steps of the base class\<close>

definition get_access_token ::
  "string \<times> string \<Rightarrow> (string \<rightharpoonup> pyval) \<Rightarrow> ('a oidc_base_scheme) state \<Rightarrow>
   (exn + response) \<times> ('a oidc_base_scheme) state"
where
  "get_access_token client_auth payload h =
     (case session_post (access_token_endpoint (self_obj h))
             (Some client_auth) (Some payload) None (Some False) (session_obj h) of
        (op_response, s') \<Rightarrow> (op_response, h\<lparr>session_obj := s'\<rparr>))"

text \<open>
  \<open>federated_token_url\<close> is a property of the federation base class, which is not part
  of the sources at hand: it is the parameter \<open>fed\<close>, a function of the identity
  service's URL, the identity provider and the protocol.
\<close>

definition get_keystone_token ::
  "(string \<Rightarrow> string \<Rightarrow> string \<Rightarrow> string) \<Rightarrow> json \<Rightarrow> ('a oidc_base_scheme) state \<Rightarrow>
   (exn + response) \<times> ('a oidc_base_scheme) state"
where
  "get_keystone_token fed access_token h =
     (case str_add ''Bearer '' access_token of
        Inl e \<Rightarrow> (Inl e, h)
      | Inr bearer \<Rightarrow>
          (let hdrs = [''Authorization'' \<mapsto> bearer];
               self = self_obj h
           in case session_post (fed (auth_url self) (identity_provider self) (protocol self))
                     None None (Some hdrs) (Some False) (session_obj h) of
                (auth_response, s') \<Rightarrow> (auth_response, h\<lparr>session_obj := s'\<rparr>)))"

subsection \<open>The two flows\<close>

text \<open>
  \<open>access.create\<close> is the parameter \<open>create\<close>: it turns the last response into the
  token data, or raises.
\<close>

definition OidcPassword_get_unscoped_auth_ref ::
  "(string \<Rightarrow> string \<Rightarrow> string \<Rightarrow> string) \<Rightarrow> (response \<Rightarrow> exn + 'r) \<Rightarrow>
   oidc_password state \<Rightarrow> (exn + 'r) \<times> oidc_password state"
where
  "OidcPassword_get_unscoped_auth_ref fed create h =
     (let self = self_obj h;
          client_auth = (client_id self, client_secret self);
          payload = [''grant_type'' \<mapsto> PyStr (grant_type self),
                     ''username'' \<mapsto> username self,
                     ''password'' \<mapsto> password self,
                     ''scope'' \<mapsto> PyStr (scope self)]
      in case get_access_token client_auth payload h of
           (Inl e, h1) \<Rightarrow> (Inl e, h1)
         | (Inr response, h1) \<Rightarrow>
             (case json_of response of
                Inl e \<Rightarrow> (Inl e, h1)
              | Inr body \<Rightarrow>
                  (case getitem body (access_token_type (self_obj h1)) of
                     Inl e \<Rightarrow> (Inl e, h1)
                   | Inr access_token \<Rightarrow>
                       (case get_keystone_token fed access_token h1 of
                          (Inl e, h2) \<Rightarrow> (Inl e, h2)
                        | (Inr response2, h2) \<Rightarrow> (create response2, h2)))))"

definition OidcAuthorizationCode_get_unscoped_auth_ref ::
  "(string \<Rightarrow> string \<Rightarrow> string \<Rightarrow> string) \<Rightarrow> (response \<Rightarrow> exn + 'r) \<Rightarrow>
   oidc_authorization_code state \<Rightarrow> (exn + 'r) \<times> oidc_authorization_code state"
where
  "OidcAuthorizationCode_get_unscoped_auth_ref fed create h =
     (let self = self_obj h;
          client_auth = (client_id self, client_secret self);
          payload = [''grant_type'' \<mapsto> PyStr (grant_type self),
                     ''redirect_uri'' \<mapsto> redirect_uri self,
                     ''code'' \<mapsto> code self]
      in case get_access_token client_auth payload h of
           (Inl e, h1) \<Rightarrow> (Inl e, h1)
         | (Inr response, h1) \<Rightarrow>
             (case json_of response of
                Inl e \<Rightarrow> (Inl e, h1)
              | Inr body \<Rightarrow>
                  (case getitem body (access_token_type (self_obj h1)) of
                     Inl e \<Rightarrow> (Inl e, h1)
                   | Inr access_token \<Rightarrow>
                       (case get_keystone_token fed access_token h1 of
                          (Inl e, h2) \<Rightarrow> (Inl e, h2)
                        | (Inr response2, h2) \<Rightarrow> (create response2, h2)))))"

text \<open>The requests that a call issued: those the log gained between two states.\<close>

definition issued :: "'p state \<Rightarrow> 'p state \<Rightarrow> request list" where
  "issued h h' = drop (length (sent (session_obj h))) (sent (session_obj h'))"

text \<open>
  The answer of the remote side to the first request of a call, and the form data and
  one form field of that request.
\<close>

definition phase1_response :: "'p state \<Rightarrow> 'p state \<Rightarrow> response option" where
  "phase1_response h h' =
     (case issued h h' of
        [] \<Rightarrow> None
      | rq # _ \<Rightarrow> transport (session_obj h) (sent (session_obj h)) rq)"

definition phase1_payload :: "'p state \<Rightarrow> 'p state \<Rightarrow> (string \<rightharpoonup> pyval) option" where
  "phase1_payload h h' = (case issued h h' of [] \<Rightarrow> None | rq # _ \<Rightarrow> data rq)"

definition phase1_keys :: "'p state \<Rightarrow> 'p state \<Rightarrow> string set option" where
  "phase1_keys h h' = (case phase1_payload h h' of None \<Rightarrow> None | Some p \<Rightarrow> Some (dom p))"

definition phase1_field :: "string \<Rightarrow> 'p state \<Rightarrow> 'p state \<Rightarrow> pyval option" where
  "phase1_field k h h' = (case phase1_payload h h' of None \<Rightarrow> None | Some p \<Rightarrow> p k)"

text \<open>The two requests as the base class builds them.\<close>

definition token_request :: "'a oidc_base_scheme \<Rightarrow> (string \<rightharpoonup> pyval) \<Rightarrow> request" where
  "token_request self payload =
     \<lparr>http_method = ''POST'', url = access_token_endpoint self,
      requests_auth = Some (client_id self, client_secret self),
      data = Some payload, headers = None, authenticated = Some False\<rparr>"

definition federation_request ::
  "(string \<Rightarrow> string \<Rightarrow> string \<Rightarrow> string) \<Rightarrow> 'a oidc_base_scheme \<Rightarrow> string \<Rightarrow> request"
where
  "federation_request fed self bearer =
     \<lparr>http_method = ''POST'', url = fed (auth_url self) (identity_provider self) (protocol self),
      requests_auth = None, data = None,
      headers = Some [''Authorization'' \<mapsto> bearer], authenticated = Some False\<rparr>"

text \<open>What a caller observes of a call: its result and the session it leaves.\<close>

definition outcome :: "(exn + 'r) \<times> 'p state \<Rightarrow> (exn + 'r) \<times> session" where
  "outcome x = (fst x, session_obj (snd x))"

subsection \<open>The exchange of the specification\<close>

text \<open>
  The specification describes both flows as one two-step exchange that takes the
  payload as its parameter: build the client credentials from the client id and the
  client secret, acquire the access token with the payload, extract the token under the
  key named by the access token type, redeem it for the federated token, and adapt the
  response. This definition follows that description; the two methods above follow the
  source.
\<close>

definition exchange ::
  "(string \<Rightarrow> string \<Rightarrow> string \<Rightarrow> string) \<Rightarrow> (response \<Rightarrow> exn + 'r) \<Rightarrow>
   (string \<rightharpoonup> pyval) \<Rightarrow> ('a oidc_base_scheme) state \<Rightarrow>
   (exn + 'r) \<times> ('a oidc_base_scheme) state"
where
  "exchange fed create payload h =
     (let clientAuth = (client_id (self_obj h), client_secret (self_obj h))
      in case get_access_token clientAuth payload h of
           (Inl e, h1) \<Rightarrow> (Inl e, h1)
         | (Inr response, h1) \<Rightarrow>
             (case json_of response of
                Inl e \<Rightarrow> (Inl e, h1)
              | Inr body \<Rightarrow>
                  (case getitem body (access_token_type (self_obj h1)) of
                     Inl e \<Rightarrow> (Inl e, h1)
                   | Inr accessToken \<Rightarrow>
                       (case get_keystone_token fed accessToken h1 of
                          (Inl e, h2) \<Rightarrow> (Inl e, h2)
                        | (Inr response2, h2) \<Rightarrow> (create response2, h2)))))"

subsection \<open>Sample collaborators and inputs\<close>

text \<open>A federated token URL in the layout of the identity service.\<close>

definition sample_fed :: "string \<Rightarrow> string \<Rightarrow> string \<Rightarrow> string" where
  "sample_fed au idp pr =
     au @ ''/OS-FEDERATION/identity_providers/'' @ idp @ ''/protocols/'' @ pr @ ''/auth''"

text \<open>A result adapter that hands out the JSON body of the response.\<close>

definition sample_create :: "response \<Rightarrow> exn + json" where
  "sample_create r = (case jsonBody r of None \<Rightarrow> Inl ValueError | Some b \<Rightarrow> Inr b)"

text \<open>
  A remote side that answers the first request of a session with \<open>first\<close> and every
  later one with a federated token.
\<close>

definition remote :: "response \<Rightarrow> request list \<Rightarrow> request \<Rightarrow> response option" where
  "remote first hist rq =
     (case hist of
        [] \<Rightarrow> Some first
      | _ # _ \<Rightarrow>
          Some \<lparr>status = 200,
                jsonBody = Some (JObj [(''token'', JObj [(''id'', JStr ''T1'')])])\<rparr>)"

definition fresh_session :: "response \<Rightarrow> session" where
  "fresh_session first = \<lparr>transport = remote first, sent = []\<rparr>"

text \<open>The password plugin of scenario A, and an authorization-code plugin.\<close>

definition alice :: "string option \<Rightarrow> string option \<Rightarrow> oidc_password" where
  "alice gt att =
     OidcPassword_init ''https://keystone:5000/v3'' ''idp'' ''oidc'' ''client'' ''hush''
       ''https://op/token'' gt att (PyStr ''alice'') (PyStr ''secret'') None"

definition app :: "string option \<Rightarrow> string option \<Rightarrow> oidc_authorization_code" where
  "app gt att =
     OidcAuthorizationCode_init ''https://keystone:5000/v3'' ''idp'' ''oidc'' ''client'' ''hush''
       ''https://op/token'' gt att (PyStr ''https://app/cb'') (PyStr ''C1'')"

text \<open>A response with a JSON object as its body.\<close>

definition answer :: "int \<Rightarrow> (string \<times> json) list \<Rightarrow> response" where
  "answer st kvs = \<lparr>status = st, jsonBody = Some (JObj kvs)\<rparr>"

text \<open>A response with any JSON document as its body.\<close>

definition reply :: "int \<Rightarrow> json \<Rightarrow> response" where
  "reply st b = \<lparr>status = st, jsonBody = Some b\<rparr>"

text \<open>
  The state before a call: one of the two plugins, given the optional constructor
  arguments \<open>grant_type\<close> and \<open>access_token_type\<close>, and a session that has sent
  nothing yet and whose remote side answers the token request with \<open>first\<close>.
\<close>

definition password_state ::
  "string option \<Rightarrow> string option \<Rightarrow> response \<Rightarrow> oidc_password state" where
  "password_state gt att first = \<lparr>self_obj = alice gt att, session_obj = fresh_session first\<rparr>"

definition code_state ::
  "string option \<Rightarrow> string option \<Rightarrow> response \<Rightarrow> oidc_authorization_code state" where
  "code_state gt att first = \<lparr>self_obj = app gt att, session_obj = fresh_session first\<rparr>"

section \<open>Properties\<close>

subsection \<open>Both methods are the exchange at their payload\<close>

lemma password_is_exchange:
  "OidcPassword_get_unscoped_auth_ref fed create h =
     exchange fed create
       [''grant_type'' \<mapsto> PyStr (grant_type (self_obj h)),
        ''username'' \<mapsto> username (self_obj h),
        ''password'' \<mapsto> password (self_obj h),
        ''scope'' \<mapsto> PyStr (scope (self_obj h))] h"
  by (simp add: OidcPassword_get_unscoped_auth_ref_def exchange_def Let_def)

lemma code_is_exchange:
  "OidcAuthorizationCode_get_unscoped_auth_ref fed create h =
     exchange fed create
       [''grant_type'' \<mapsto> PyStr (grant_type (self_obj h)),
        ''redirect_uri'' \<mapsto> redirect_uri (self_obj h),
        ''code'' \<mapsto> code (self_obj h)] h"
  by (simp add: OidcAuthorizationCode_get_unscoped_auth_ref_def exchange_def Let_def)

subsection \<open>How the exchange runs\<close>

text \<open>
  The exchange never touches the plugin instance, always sends the token request first,
  stops after it when the answer gives no string to use as a token, and otherwise sends
  the federation request.
\<close>

lemma issued_append:
  "issued h (h\<lparr>session_obj := (session_obj h)\<lparr>sent := sent (session_obj h) @ rqs\<rparr>\<rparr>) = rqs"
  by (simp add: issued_def)

lemma exchange_self: "self_obj (snd (exchange fed create payload h)) = self_obj h"
  by (simp add: exchange_def get_access_token_def get_keystone_token_def session_post_def Let_def
      split: prod.splits sum.splits option.splits if_splits)

lemma exchange_first:
  "\<exists>rest. issued h (snd (exchange fed create payload h)) = token_request (self_obj h) payload # rest"
  by (auto simp: exchange_def get_access_token_def get_keystone_token_def session_post_def Let_def
      token_request_def issued_def
      split: prod.splits sum.splits option.splits if_splits)

lemma exchange_phase1_response:
  "phase1_response h (snd (exchange fed create payload h)) =
     transport (session_obj h) (sent (session_obj h)) (token_request (self_obj h) payload)"
  using exchange_first [of h fed create payload]
  by (auto simp: phase1_response_def)

lemma exchange_phase1_payload:
  "phase1_payload h (snd (exchange fed create payload h)) = Some payload"
  using exchange_first [of h fed create payload]
  by (auto simp: phase1_payload_def token_request_def)

lemma exchange_stops:
  assumes "transport (session_obj h) (sent (session_obj h)) (token_request (self_obj h) payload) = a"
    and "a = None \<and> e = TransportError
       \<or> (\<exists>r. a = Some r \<and> \<not> is_2xx r \<and> e = TokenEndpointError (status r) (jsonBody r))
       \<or> (\<exists>r. a = Some r \<and> is_2xx r \<and> jsonBody r = None \<and> e = ValueError)
       \<or> (\<exists>r b. a = Some r \<and> is_2xx r \<and> jsonBody r = Some b \<and>
              getitem b (access_token_type (self_obj h)) = Inl e)
       \<or> (\<exists>r b v. a = Some r \<and> is_2xx r \<and> jsonBody r = Some b \<and>
              getitem b (access_token_type (self_obj h)) = Inr v \<and> str_add ''Bearer '' v = Inl e)"
  shows "exchange fed create payload h =
           (Inl e, h\<lparr>session_obj := (session_obj h)
                       \<lparr>sent := sent (session_obj h) @ [token_request (self_obj h) payload]\<rparr>\<rparr>)"
  using assms
  by (auto simp: exchange_def get_access_token_def get_keystone_token_def session_post_def Let_def
      token_request_def json_of_def)

lemma exchange_redeems:
  assumes "transport (session_obj h) (sent (session_obj h)) (token_request (self_obj h) payload) = Some r"
    and "is_2xx r" and "jsonBody r = Some b"
    and "getitem b (access_token_type (self_obj h)) = Inr (JStr t)"
  shows "exchange fed create payload h =
           ((case transport (session_obj h)
                    (sent (session_obj h) @ [token_request (self_obj h) payload])
                    (federation_request fed (self_obj h) (''Bearer '' @ t)) of
               None \<Rightarrow> Inl TransportError
             | Some r2 \<Rightarrow> if is_2xx r2 then create r2
                          else Inl (TokenEndpointError (status r2) (jsonBody r2))),
            h\<lparr>session_obj := (session_obj h)
                \<lparr>sent := sent (session_obj h) @
                   [token_request (self_obj h) payload,
                    federation_request fed (self_obj h) (''Bearer '' @ t)]\<rparr>\<rparr>)"
  using assms
  by (auto simp: exchange_def get_access_token_def get_keystone_token_def session_post_def Let_def
      token_request_def federation_request_def json_of_def split: option.splits)

text \<open>The same two facts, read off the log of the session.\<close>

lemma exchange_issued_two:
  assumes "phase1_response h (snd (exchange fed create payload h)) = Some r"
    and "is_2xx r" and "jsonBody r = Some b"
    and "getitem b (access_token_type (self_obj h)) = Inr (JStr t)"
  shows "issued h (snd (exchange fed create payload h)) =
           [token_request (self_obj h) payload,
            federation_request fed (self_obj h) (''Bearer '' @ t)]"
  using assms exchange_redeems [of h payload r b t fed create]
  by (simp add: exchange_phase1_response issued_append)

lemma exchange_issued_one:
  assumes "phase1_response h (snd (exchange fed create payload h)) = a"
    and "a = None \<and> e = TransportError
       \<or> (\<exists>r. a = Some r \<and> \<not> is_2xx r \<and> e = TokenEndpointError (status r) (jsonBody r))
       \<or> (\<exists>r. a = Some r \<and> is_2xx r \<and> jsonBody r = None \<and> e = ValueError)
       \<or> (\<exists>r b. a = Some r \<and> is_2xx r \<and> jsonBody r = Some b \<and>
              getitem b (access_token_type (self_obj h)) = Inl e)
       \<or> (\<exists>r b v. a = Some r \<and> is_2xx r \<and> jsonBody r = Some b \<and>
              getitem b (access_token_type (self_obj h)) = Inr v \<and> str_add ''Bearer '' v = Inl e)"
  shows "fst (exchange fed create payload h) = Inl e \<and>
         issued h (snd (exchange fed create payload h)) = [token_request (self_obj h) payload]"
  using exchange_stops [of h payload a e fed create] assms
  by (simp add: exchange_phase1_response issued_append)

lemma exchange_truncate:
  "outcome (exchange fed create p h) =
   outcome (exchange fed create p
              \<lparr>self_obj = oidc_base.truncate (self_obj h), session_obj = session_obj h\<rparr>)"
  by (simp add: outcome_def exchange_def get_access_token_def get_keystone_token_def session_post_def Let_def
      oidc_base.truncate_def
      split: prod.splits sum.splits option.splits if_splits)

subsection \<open>The two methods on the log of the session\<close>

text \<open>The definitions that a run on a concrete input unfolds.\<close>

lemmas run_defs = OidcPassword_get_unscoped_auth_ref_def OidcAuthorizationCode_get_unscoped_auth_ref_def
  exchange_def get_access_token_def get_keystone_token_def session_post_def json_of_def Let_def
  issued_def phase1_response_def phase1_payload_def phase1_keys_def phase1_field_def
  password_state_def code_state_def alice_def app_def fresh_session_def remote_def answer_def
  reply_def
  OidcPassword_init_def OidcAuthorizationCode_init_def OidcBase_init_def
  oidc_base.extend_def oidc_password.fields_def oidc_authorization_code.fields_def
  is_2xx_def sample_fed_def sample_create_def outcome_def oidc_base.truncate_def


lemma password_issued_two:
  assumes "phase1_response hp (snd (OidcPassword_get_unscoped_auth_ref fed create hp)) = Some r"
    and "is_2xx r" and "jsonBody r = Some b"
    and "getitem b (access_token_type (self_obj hp)) = Inr (JStr t)"
  shows "issued hp (snd (OidcPassword_get_unscoped_auth_ref fed create hp)) =
           [token_request (self_obj hp)
              [''grant_type'' \<mapsto> PyStr (grant_type (self_obj hp)),
               ''username'' \<mapsto> username (self_obj hp),
               ''password'' \<mapsto> password (self_obj hp),
               ''scope'' \<mapsto> PyStr (scope (self_obj hp))],
            federation_request fed (self_obj hp) (''Bearer '' @ t)]"
  using assms unfolding password_is_exchange by (rule exchange_issued_two)

lemma code_issued_two:
  assumes "phase1_response hc (snd (OidcAuthorizationCode_get_unscoped_auth_ref fed create hc)) = Some r"
    and "is_2xx r" and "jsonBody r = Some b"
    and "getitem b (access_token_type (self_obj hc)) = Inr (JStr t)"
  shows "issued hc (snd (OidcAuthorizationCode_get_unscoped_auth_ref fed create hc)) =
           [token_request (self_obj hc)
              [''grant_type'' \<mapsto> PyStr (grant_type (self_obj hc)),
               ''redirect_uri'' \<mapsto> redirect_uri (self_obj hc),
               ''code'' \<mapsto> code (self_obj hc)],
            federation_request fed (self_obj hc) (''Bearer '' @ t)]"
  using assms unfolding code_is_exchange by (rule exchange_issued_two)

lemma password_stops:
  assumes "phase1_response hp (snd (OidcPassword_get_unscoped_auth_ref fed create hp)) = Some r"
    and "\<not> is_2xx r \<and> e = TokenEndpointError (status r) (jsonBody r)
       \<or> is_2xx r \<and> jsonBody r = Some b \<and> getitem b (access_token_type (self_obj hp)) = Inl e"
  shows "fst (OidcPassword_get_unscoped_auth_ref fed create hp) = Inl e \<and>
         issued hp (snd (OidcPassword_get_unscoped_auth_ref fed create hp)) =
           [token_request (self_obj hp)
              [''grant_type'' \<mapsto> PyStr (grant_type (self_obj hp)),
               ''username'' \<mapsto> username (self_obj hp),
               ''password'' \<mapsto> password (self_obj hp),
               ''scope'' \<mapsto> PyStr (scope (self_obj hp))]]"
  using assms unfolding password_is_exchange
  by (intro exchange_issued_one [where a = "Some r"]) auto

lemma code_stops:
  assumes "phase1_response hc (snd (OidcAuthorizationCode_get_unscoped_auth_ref fed create hc)) = Some r"
    and "\<not> is_2xx r \<and> e = TokenEndpointError (status r) (jsonBody r)
       \<or> is_2xx r \<and> jsonBody r = Some b \<and> getitem b (access_token_type (self_obj hc)) = Inl e"
  shows "fst (OidcAuthorizationCode_get_unscoped_auth_ref fed create hc) = Inl e \<and>
         issued hc (snd (OidcAuthorizationCode_get_unscoped_auth_ref fed create hc)) =
           [token_request (self_obj hc)
              [''grant_type'' \<mapsto> PyStr (grant_type (self_obj hc)),
               ''redirect_uri'' \<mapsto> redirect_uri (self_obj hc),
               ''code'' \<mapsto> code (self_obj hc)]]"
  using assms unfolding code_is_exchange
  by (intro exchange_issued_one [where a = "Some r"]) auto

text \<open>
  The headers of the issued requests are a function of the value found under the
  extraction key.
\<close>

lemma headers_by_extraction:
  assumes one: "\<And>e. getitem b k = Inl e \<Longrightarrow> rqs = [token_request self p]"
    and bad: "\<And>v e. getitem b k = Inr v \<Longrightarrow> str_add ''Bearer '' v = Inl e \<Longrightarrow>
                rqs = [token_request self p]"
    and two: "\<And>t. getitem b k = Inr (JStr t) \<Longrightarrow>
                rqs = [token_request self p, federation_request fed self (''Bearer '' @ t)]"
  shows "map headers rqs =
           None # (case getitem b k of
                     Inr (JStr t) \<Rightarrow> [Some [''Authorization'' \<mapsto> ''Bearer '' @ t]]
                   | _ \<Rightarrow> [])"
proof (cases "getitem b k")
  case (Inl e)
  with one show ?thesis by (simp add: token_request_def)
next
  case (Inr v)
  show ?thesis
  proof (cases v)
    case (JStr t)
    with Inr two show ?thesis by (simp add: token_request_def federation_request_def)
  qed (use Inr bad in \<open>simp_all add: token_request_def\<close>)
qed

lemma exchange_headers:
  assumes "phase1_response h (snd (exchange fed create payload h)) = Some r"
    and "is_2xx r" and "jsonBody r = Some b"
  shows "map headers (issued h (snd (exchange fed create payload h))) =
           None # (case getitem b (access_token_type (self_obj h)) of
                     Inr (JStr t) \<Rightarrow> [Some [''Authorization'' \<mapsto> ''Bearer '' @ t]]
                   | _ \<Rightarrow> [])"
proof (rule headers_by_extraction)
  fix e assume "getitem b (access_token_type (self_obj h)) = Inl e"
  with assms exchange_issued_one [of h fed create payload "Some r" e]
  show "issued h (snd (exchange fed create payload h)) = [token_request (self_obj h) payload]"
    by auto
next
  fix v e assume "getitem b (access_token_type (self_obj h)) = Inr v" "str_add ''Bearer '' v = Inl e"
  with assms exchange_issued_one [of h fed create payload "Some r" e]
  show "issued h (snd (exchange fed create payload h)) = [token_request (self_obj h) payload]"
    by auto
next
  fix t assume "getitem b (access_token_type (self_obj h)) = Inr (JStr t)"
  with assms show "issued h (snd (exchange fed create payload h)) =
      [token_request (self_obj h) payload, federation_request fed (self_obj h) (''Bearer '' @ t)]"
    by (intro exchange_issued_two)
qed

lemma exchange_extraction_error:
  assumes "phase1_response h (snd (exchange fed create payload h)) = Some r"
    and "is_2xx r" and "jsonBody r = Some b"
    and "getitem b (access_token_type (self_obj h)) = Inl e"
  shows "fst (exchange fed create payload h) = Inl e"
  using assms exchange_issued_one [of h fed create payload "Some r" e] by auto

lemma getitem_non_dict: "\<not> is_dict b \<Longrightarrow> getitem b k = Inl TypeError"
  by (cases b) simp_all

lemma exchange_take_one:
  "take (Suc 0) (issued h (snd (exchange fed create p h))) = [token_request (self_obj h) p]"
  using exchange_first [of h fed create p] by auto

section \<open>The claims\<close>

text \<open>
  C1 (as amended). The claim promises two requests for every session; a call whose first
  answer gives no token stops after one request. What holds: for every configuration and
  every session whose phase-1 response is 2xx with a JSON object that maps the key named
  by \<open>access_token_type\<close> to a string, a call of \<open>get_unscoped_auth_ref\<close>, in either
  flow, issues exactly two requests, in order: the POST to the token endpoint, then the
  POST to the federated token URL, whose only header is \<open>Authorization\<close> with the value
  "Bearer " followed by that string.
\<close>

theorem two_requests_with_bearer:
  "(phase1_response hp (snd (OidcPassword_get_unscoped_auth_ref fed create hp)) = Some rp \<and>
    is_2xx rp \<and> jsonBody rp = Some (JObj kp) \<and>
    map_of kp (access_token_type (self_obj hp)) = Some (JStr tp) \<longrightarrow>
      map http_method (issued hp (snd (OidcPassword_get_unscoped_auth_ref fed create hp))) =
        [''POST'', ''POST''] \<and>
      map url (issued hp (snd (OidcPassword_get_unscoped_auth_ref fed create hp))) =
        [access_token_endpoint (self_obj hp),
         fed (auth_url (self_obj hp)) (identity_provider (self_obj hp)) (protocol (self_obj hp))] \<and>
      map headers (issued hp (snd (OidcPassword_get_unscoped_auth_ref fed create hp))) =
        [None, Some [''Authorization'' \<mapsto> ''Bearer '' @ tp]]) \<and>
   (phase1_response hc (snd (OidcAuthorizationCode_get_unscoped_auth_ref fed create hc)) = Some rc \<and>
    is_2xx rc \<and> jsonBody rc = Some (JObj kc) \<and>
    map_of kc (access_token_type (self_obj hc)) = Some (JStr tc) \<longrightarrow>
      map http_method (issued hc (snd (OidcAuthorizationCode_get_unscoped_auth_ref fed create hc))) =
        [''POST'', ''POST''] \<and>
      map url (issued hc (snd (OidcAuthorizationCode_get_unscoped_auth_ref fed create hc))) =
        [access_token_endpoint (self_obj hc),
         fed (auth_url (self_obj hc)) (identity_provider (self_obj hc)) (protocol (self_obj hc))] \<and>
      map headers (issued hc (snd (OidcAuthorizationCode_get_unscoped_auth_ref fed create hc))) =
        [None, Some [''Authorization'' \<mapsto> ''Bearer '' @ tc]])"
proof -
  have "getitem (JObj kp) (access_token_type (self_obj hp)) = Inr (JStr tp)"
    if "map_of kp (access_token_type (self_obj hp)) = Some (JStr tp)"
    using that by simp
  moreover have "getitem (JObj kc) (access_token_type (self_obj hc)) = Inr (JStr tc)"
    if "map_of kc (access_token_type (self_obj hc)) = Some (JStr tc)"
    using that by simp
  ultimately show ?thesis
    using password_issued_two [of hp fed create rp "JObj kp" tp]
      code_issued_two [of hc fed create rc "JObj kc" tc]
    by (simp add: token_request_def federation_request_def)
qed

text \<open>Scenario A of the specification, and its authorization-code twin.\<close>

theorem two_requests_with_bearer_witness:
  "map headers (issued (password_state None None (answer 200 [(''access_token'', JStr ''AT123'')]))
      (snd (OidcPassword_get_unscoped_auth_ref sample_fed sample_create
              (password_state None None (answer 200 [(''access_token'', JStr ''AT123'')]))))) =
     [None, Some [''Authorization'' \<mapsto> ''Bearer AT123'']] \<and>
   map url (issued (code_state None None (answer 200 [(''access_token'', JStr ''AT123'')]))
      (snd (OidcAuthorizationCode_get_unscoped_auth_ref sample_fed sample_create
              (code_state None None (answer 200 [(''access_token'', JStr ''AT123'')]))))) =
     [''https://op/token'',
      ''https://keystone:5000/v3/OS-FEDERATION/identity_providers/idp/protocols/oidc/auth'']"
  using two_requests_with_bearer
    [of "password_state None None (answer 200 [(''access_token'', JStr ''AT123'')])"
        sample_fed sample_create
        "answer 200 [(''access_token'', JStr ''AT123'')]"
        "[(''access_token'', JStr ''AT123'')]" "''AT123''"
        "code_state None None (answer 200 [(''access_token'', JStr ''AT123'')])"
        "answer 200 [(''access_token'', JStr ''AT123'')]"
        "[(''access_token'', JStr ''AT123'')]" "''AT123''"]
  by (simp add: run_defs)

text \<open>
  C1 as stated fails: the token endpoint answers 200 with the empty JSON object, the
  subscript raises \<open>KeyError\<close>, and the call has issued one request, not two.
\<close>

theorem single_request_counterexample:
  "length (issued (password_state None None (answer 200 []))
      (snd (OidcPassword_get_unscoped_auth_ref sample_fed sample_create
              (password_state None None (answer 200 []))))) = 1 \<and>
   fst (OidcPassword_get_unscoped_auth_ref sample_fed sample_create
              (password_state None None (answer 200 []))) = Inl (KeyError ''access_token'')"
  by (simp add: run_defs)

text \<open>
  C2. For every configuration and every session whose phase-1 response has a status
  outside the 2xx class, \<open>get_unscoped_auth_ref\<close>, in either flow, fails with the
  \<open>TokenEndpointError\<close> that carries this status, and the only request issued is
  the one to the token endpoint: the federated-token request is never sent. The status
  check is the session's, which is modelled from the specification.
\<close>

theorem no_phase2_after_bad_status:
  "(phase1_response hp (snd (OidcPassword_get_unscoped_auth_ref fed create hp)) = Some rp \<and>
    \<not> is_2xx rp \<longrightarrow>
      fst (OidcPassword_get_unscoped_auth_ref fed create hp) =
        Inl (TokenEndpointError (status rp) (jsonBody rp)) \<and>
      map url (issued hp (snd (OidcPassword_get_unscoped_auth_ref fed create hp))) =
        [access_token_endpoint (self_obj hp)]) \<and>
   (phase1_response hc (snd (OidcAuthorizationCode_get_unscoped_auth_ref fed create hc)) = Some rc \<and>
    \<not> is_2xx rc \<longrightarrow>
      fst (OidcAuthorizationCode_get_unscoped_auth_ref fed create hc) =
        Inl (TokenEndpointError (status rc) (jsonBody rc)) \<and>
      map url (issued hc (snd (OidcAuthorizationCode_get_unscoped_auth_ref fed create hc))) =
        [access_token_endpoint (self_obj hc)])"
  using password_stops [of hp fed create rp "TokenEndpointError (status rp) (jsonBody rp)"]
    code_stops [of hc fed create rc "TokenEndpointError (status rc) (jsonBody rc)"]
  by (simp add: token_request_def)

text \<open>
  Scenario B of the specification (status 401), and a 503 for the authorization-code
  flow.
\<close>

theorem no_phase2_after_bad_status_witness:
  "fst (OidcPassword_get_unscoped_auth_ref sample_fed sample_create
          (password_state None None (answer 401 []))) =
     Inl (TokenEndpointError 401 (Some (JObj []))) \<and>
   map url (issued (password_state None None (answer 401 []))
      (snd (OidcPassword_get_unscoped_auth_ref sample_fed sample_create
              (password_state None None (answer 401 []))))) = [''https://op/token''] \<and>
   fst (OidcAuthorizationCode_get_unscoped_auth_ref sample_fed sample_create
          (code_state None None (answer 503 []))) =
     Inl (TokenEndpointError 503 (Some (JObj []))) \<and>
   map url (issued (code_state None None (answer 503 []))
      (snd (OidcAuthorizationCode_get_unscoped_auth_ref sample_fed sample_create
              (code_state None None (answer 503 []))))) = [''https://op/token'']"
  using no_phase2_after_bad_status
    [of "password_state None None (answer 401 [])" sample_fed sample_create "answer 401 []"
        "code_state None None (answer 503 [])" "answer 503 []"]
  by (simp add: run_defs)

text \<open>
  C3 (as amended). For every configuration and every session whose phase-1 response is
  2xx with a JSON object that lacks the key named by \<open>access_token_type\<close>,
  \<open>get_unscoped_auth_ref\<close>, in either flow, fails with the error of the missing key
  (Python's \<open>KeyError\<close>, the MalformedResponseError of the specification). When the
  2xx body is a JSON document that is not an object (an array, a string, a number, a
  boolean or null), which holds no key either, the call fails with \<open>TypeError\<close>
  instead. In both cases the only request issued is the one to the token endpoint.
\<close>

theorem extraction_fails_before_phase2:
  "(phase1_response hp (snd (OidcPassword_get_unscoped_auth_ref fed create hp)) = Some rp \<and>
    is_2xx rp \<and> jsonBody rp = Some (JObj kp) \<and>
    map_of kp (access_token_type (self_obj hp)) = None \<longrightarrow>
      fst (OidcPassword_get_unscoped_auth_ref fed create hp) =
        Inl (KeyError (access_token_type (self_obj hp))) \<and>
      map url (issued hp (snd (OidcPassword_get_unscoped_auth_ref fed create hp))) =
        [access_token_endpoint (self_obj hp)]) \<and>
   (phase1_response hp (snd (OidcPassword_get_unscoped_auth_ref fed create hp)) = Some rp \<and>
    is_2xx rp \<and> jsonBody rp = Some bp \<and> \<not> is_dict bp \<longrightarrow>
      fst (OidcPassword_get_unscoped_auth_ref fed create hp) = Inl TypeError \<and>
      map url (issued hp (snd (OidcPassword_get_unscoped_auth_ref fed create hp))) =
        [access_token_endpoint (self_obj hp)]) \<and>
   (phase1_response hc (snd (OidcAuthorizationCode_get_unscoped_auth_ref fed create hc)) = Some rc \<and>
    is_2xx rc \<and> jsonBody rc = Some (JObj kc) \<and>
    map_of kc (access_token_type (self_obj hc)) = None \<longrightarrow>
      fst (OidcAuthorizationCode_get_unscoped_auth_ref fed create hc) =
        Inl (KeyError (access_token_type (self_obj hc))) \<and>
      map url (issued hc (snd (OidcAuthorizationCode_get_unscoped_auth_ref fed create hc))) =
        [access_token_endpoint (self_obj hc)]) \<and>
   (phase1_response hc (snd (OidcAuthorizationCode_get_unscoped_auth_ref fed create hc)) = Some rc \<and>
    is_2xx rc \<and> jsonBody rc = Some bc \<and> \<not> is_dict bc \<longrightarrow>
      fst (OidcAuthorizationCode_get_unscoped_auth_ref fed create hc) = Inl TypeError \<and>
      map url (issued hc (snd (OidcAuthorizationCode_get_unscoped_auth_ref fed create hc))) =
        [access_token_endpoint (self_obj hc)])"
  using password_stops [of hp fed create rp "KeyError (access_token_type (self_obj hp))" "JObj kp"]
    password_stops [of hp fed create rp TypeError bp]
    code_stops [of hc fed create rc "KeyError (access_token_type (self_obj hc))" "JObj kc"]
    code_stops [of hc fed create rc TypeError bc]
    getitem_non_dict [of bp "access_token_type (self_obj hp)"]
    getitem_non_dict [of bc "access_token_type (self_obj hc)"]
  by (simp add: token_request_def)

text \<open>
  A plugin configured for \<open>id_token\<close> against an answer that only holds
  \<open>access_token\<close>, an answer that holds an error description only, and the bodies
  \<open>[]\<close> and \<open>null\<close>.
\<close>

theorem extraction_fails_before_phase2_witness:
  "fst (OidcPassword_get_unscoped_auth_ref sample_fed sample_create
          (password_state None (Some ''id_token'')
             (reply 200 (JObj [(''access_token'', JStr ''AT123'')])))) =
     Inl (KeyError ''id_token'') \<and>
   fst (OidcPassword_get_unscoped_auth_ref sample_fed sample_create
          (password_state None None (reply 200 (JArr [])))) = Inl TypeError \<and>
   map url (issued (password_state None None (reply 200 (JArr [])))
      (snd (OidcPassword_get_unscoped_auth_ref sample_fed sample_create
              (password_state None None (reply 200 (JArr [])))))) = [''https://op/token''] \<and>
   fst (OidcAuthorizationCode_get_unscoped_auth_ref sample_fed sample_create
          (code_state None None (reply 200 (JObj [(''error'', JStr ''invalid_grant'')])))) =
     Inl (KeyError ''access_token'') \<and>
   map url (issued (code_state None None (reply 200 (JObj [(''error'', JStr ''invalid_grant'')])))
      (snd (OidcAuthorizationCode_get_unscoped_auth_ref sample_fed sample_create
              (code_state None None (reply 200 (JObj [(''error'', JStr ''invalid_grant'')])))))) =
     [''https://op/token''] \<and>
   fst (OidcAuthorizationCode_get_unscoped_auth_ref sample_fed sample_create
          (code_state None None (reply 200 JNull))) = Inl TypeError"
  using extraction_fails_before_phase2
    [of "password_state None None (reply 200 (JArr []))" sample_fed sample_create
        "reply 200 (JArr [])" "[]" "JArr []"
        "code_state None None (reply 200 (JObj [(''error'', JStr ''invalid_grant'')]))"
        "reply 200 (JObj [(''error'', JStr ''invalid_grant'')])"
        "[(''error'', JStr ''invalid_grant'')]" "JNull"]
    extraction_fails_before_phase2
    [of "password_state None (Some ''id_token'') (reply 200 (JObj [(''access_token'', JStr ''AT123'')]))"
        sample_fed sample_create
        "reply 200 (JObj [(''access_token'', JStr ''AT123'')])"
        "[(''access_token'', JStr ''AT123'')]" "JObj []"
        "code_state None None (reply 200 JNull)"
        "reply 200 JNull" "[]" "JNull"]
  by (simp add: run_defs)

text \<open>
  C3 as stated fails: the token endpoint answers 200 with the JSON array \<open>[]\<close>, a
  body without the key, and the call fails with \<open>TypeError\<close>, not with the error of
  the missing key.
\<close>

theorem non_object_body_counterexample:
  "fst (OidcPassword_get_unscoped_auth_ref sample_fed sample_create
          (password_state None None (reply 200 (JArr [])))) = Inl TypeError \<and>
   fst (OidcPassword_get_unscoped_auth_ref sample_fed sample_create
          (password_state None None (reply 200 (JArr [])))) \<noteq> Inl (KeyError ''access_token'')"
  by (simp add: run_defs)

text \<open>
  C4. In every call, the form data of the phase-1 request of the password flow has
  exactly the keys grant_type, username, password and scope, and that of the
  authorization-code flow exactly the keys grant_type, redirect_uri and code. The fields
  of one variant (redirect_uri and code; username, password and scope) are absent from
  the other variant's payload; grant_type is the one key both have.
\<close>

theorem payload_keys:
  "phase1_keys hp (snd (OidcPassword_get_unscoped_auth_ref fed create hp)) =
     Some {''grant_type'', ''username'', ''password'', ''scope''} \<and>
   phase1_keys hc (snd (OidcAuthorizationCode_get_unscoped_auth_ref fed create hc)) =
     Some {''grant_type'', ''redirect_uri'', ''code''} \<and>
   phase1_field ''redirect_uri'' hp (snd (OidcPassword_get_unscoped_auth_ref fed create hp)) = None \<and>
   phase1_field ''code'' hp (snd (OidcPassword_get_unscoped_auth_ref fed create hp)) = None \<and>
   phase1_field ''username'' hc (snd (OidcAuthorizationCode_get_unscoped_auth_ref fed create hc)) = None \<and>
   phase1_field ''password'' hc (snd (OidcAuthorizationCode_get_unscoped_auth_ref fed create hc)) = None \<and>
   phase1_field ''scope'' hc (snd (OidcAuthorizationCode_get_unscoped_auth_ref fed create hc)) = None"
  by (simp add: phase1_keys_def phase1_field_def password_is_exchange code_is_exchange
      exchange_phase1_payload insert_commute)

text \<open>
  C5 (as amended). The payload does not hold a literal: in both flows it maps grant_type
  to the \<open>grant_type\<close> attribute of the instance, which the constructor takes as an
  argument. That attribute is "password" (password flow) or "authorization_code"
  (authorization-code flow) when the caller leaves the argument out.
\<close>

theorem grant_type_is_configured:
  "phase1_field ''grant_type'' hp (snd (OidcPassword_get_unscoped_auth_ref fed create hp)) =
     Some (PyStr (grant_type (self_obj hp))) \<and>
   phase1_field ''grant_type'' hc (snd (OidcAuthorizationCode_get_unscoped_auth_ref fed create hc)) =
     Some (PyStr (grant_type (self_obj hc))) \<and>
   grant_type (OidcPassword_init au idp pr cid cs ate None att un pw sc) = ''password'' \<and>
   grant_type (OidcAuthorizationCode_init au idp pr cid cs ate None att ru co) =
     ''authorization_code''"
  by (simp add: phase1_field_def password_is_exchange code_is_exchange exchange_phase1_payload
      OidcPassword_init_def OidcAuthorizationCode_init_def OidcBase_init_def oidc_base.extend_def)

text \<open>
  C5 as stated fails: a password plugin constructed with
  \<open>grant_type='authorization_code'\<close> sends that value, not "password".
\<close>

theorem grant_type_counterexample:
  "phase1_field ''grant_type'' (password_state (Some ''authorization_code'') None (answer 200 []))
     (snd (OidcPassword_get_unscoped_auth_ref sample_fed sample_create
             (password_state (Some ''authorization_code'') None (answer 200 [])))) =
     Some (PyStr ''authorization_code'') \<and>
   phase1_field ''grant_type'' (password_state (Some ''authorization_code'') None (answer 200 []))
     (snd (OidcPassword_get_unscoped_auth_ref sample_fed sample_create
             (password_state (Some ''authorization_code'') None (answer 200 [])))) \<noteq>
     Some (PyStr ''password'')"
  by (simp add: run_defs)

text \<open>
  C6. The key under which the access token is read is the configured
  \<open>access_token_type\<close>, whatever the flow and the grant type: when both flows are
  configured with the same \<open>access_token_type\<close> and receive the same JSON object in a
  2xx phase-1 response, the headers of the requests they issue are equal and are decided
  by the value that the object stores under that key (a bearer header with that value
  when it is a string, no second request otherwise), and both fail with the error of the
  missing key when the object has no such key.
\<close>

theorem extraction_key_is_access_token_type:
  assumes "phase1_response hp (snd (OidcPassword_get_unscoped_auth_ref fed create hp)) = Some rp"
    and "is_2xx rp" and "jsonBody rp = Some (JObj kvs)"
    and "phase1_response hc (snd (OidcAuthorizationCode_get_unscoped_auth_ref fed create hc)) = Some rc"
    and "is_2xx rc" and "jsonBody rc = Some (JObj kvs)"
    and "access_token_type (self_obj hp) = k" and "access_token_type (self_obj hc) = k"
  shows "map headers (issued hp (snd (OidcPassword_get_unscoped_auth_ref fed create hp))) =
           None # (case map_of kvs k of
                     Some (JStr t) \<Rightarrow> [Some [''Authorization'' \<mapsto> ''Bearer '' @ t]]
                   | _ \<Rightarrow> []) \<and>
         map headers (issued hc (snd (OidcAuthorizationCode_get_unscoped_auth_ref fed create hc))) =
           map headers (issued hp (snd (OidcPassword_get_unscoped_auth_ref fed create hp))) \<and>
         (map_of kvs k = None \<longrightarrow>
            fst (OidcPassword_get_unscoped_auth_ref fed create hp) = Inl (KeyError k) \<and>
            fst (OidcAuthorizationCode_get_unscoped_auth_ref fed create hc) = Inl (KeyError k))"
proof -
  have g: "(case getitem (JObj kvs) k of
              Inr (JStr t) \<Rightarrow> [Some [''Authorization'' \<mapsto> ''Bearer '' @ t]]
            | _ \<Rightarrow> []) =
           (case map_of kvs k of
              Some (JStr t) \<Rightarrow> [Some [''Authorization'' \<mapsto> ''Bearer '' @ t]]
            | _ \<Rightarrow> [])"
    by (simp split: option.splits)
  have e: "getitem (JObj kvs) k = Inl (KeyError k)" if "map_of kvs k = None"
    using that by simp
  from assms g e show ?thesis
    unfolding password_is_exchange code_is_exchange
    by (auto simp: exchange_headers dest: exchange_extraction_error)
qed

text \<open>
  Both plugins configured with \<open>id_token\<close>, against an answer that holds an access
  token, an id token and a refresh token, in this order: the id token is the one sent.
\<close>

theorem extraction_key_is_access_token_type_witness:
  "map headers (issued (password_state None (Some ''id_token'')
        (answer 200 [(''access_token'', JStr ''AT''), (''id_token'', JStr ''IT''),
                     (''refresh_token'', JStr ''RT'')]))
      (snd (OidcPassword_get_unscoped_auth_ref sample_fed sample_create
              (password_state None (Some ''id_token'')
                 (answer 200 [(''access_token'', JStr ''AT''), (''id_token'', JStr ''IT''),
                              (''refresh_token'', JStr ''RT'')]))))) =
     [None, Some [''Authorization'' \<mapsto> ''Bearer IT'']] \<and>
   map headers (issued (code_state None (Some ''id_token'')
        (answer 200 [(''access_token'', JStr ''AT''), (''id_token'', JStr ''IT''),
                     (''refresh_token'', JStr ''RT'')]))
      (snd (OidcAuthorizationCode_get_unscoped_auth_ref sample_fed sample_create
              (code_state None (Some ''id_token'')
                 (answer 200 [(''access_token'', JStr ''AT''), (''id_token'', JStr ''IT''),
                              (''refresh_token'', JStr ''RT'')]))))) =
     [None, Some [''Authorization'' \<mapsto> ''Bearer IT'']]"
  using extraction_key_is_access_token_type
    [of "password_state None (Some ''id_token'')
           (answer 200 [(''access_token'', JStr ''AT''), (''id_token'', JStr ''IT''),
                        (''refresh_token'', JStr ''RT'')])"
        sample_fed sample_create
        "answer 200 [(''access_token'', JStr ''AT''), (''id_token'', JStr ''IT''),
                     (''refresh_token'', JStr ''RT'')]"
        "[(''access_token'', JStr ''AT''), (''id_token'', JStr ''IT''),
          (''refresh_token'', JStr ''RT'')]"
        "code_state None (Some ''id_token'')
           (answer 200 [(''access_token'', JStr ''AT''), (''id_token'', JStr ''IT''),
                        (''refresh_token'', JStr ''RT'')])"
        "answer 200 [(''access_token'', JStr ''AT''), (''id_token'', JStr ''IT''),
                     (''refresh_token'', JStr ''RT'')]"
        "''id_token''"]
  by (simp add: run_defs)

text \<open>
  C7. For every configuration and session, the first request of
  \<open>get_unscoped_auth_ref\<close> is a POST to \<open>access_token_endpoint\<close>, sent with
  \<open>authenticated=False\<close>, with the pair of \<open>client_id\<close> and \<open>client_secret\<close> as
  request credentials, the payload of the flow as form data, and no headers.
\<close>

theorem phase1_request:
  "take 1 (issued hp (snd (OidcPassword_get_unscoped_auth_ref fed create hp))) =
     [\<lparr>http_method = ''POST'', url = access_token_endpoint (self_obj hp),
       requests_auth = Some (client_id (self_obj hp), client_secret (self_obj hp)),
       data = Some [''grant_type'' \<mapsto> PyStr (grant_type (self_obj hp)),
                    ''username'' \<mapsto> username (self_obj hp),
                    ''password'' \<mapsto> password (self_obj hp),
                    ''scope'' \<mapsto> PyStr (scope (self_obj hp))],
       headers = None, authenticated = Some False\<rparr>] \<and>
   take 1 (issued hc (snd (OidcAuthorizationCode_get_unscoped_auth_ref fed create hc))) =
     [\<lparr>http_method = ''POST'', url = access_token_endpoint (self_obj hc),
       requests_auth = Some (client_id (self_obj hc), client_secret (self_obj hc)),
       data = Some [''grant_type'' \<mapsto> PyStr (grant_type (self_obj hc)),
                    ''redirect_uri'' \<mapsto> redirect_uri (self_obj hc),
                    ''code'' \<mapsto> code (self_obj hc)],
       headers = None, authenticated = Some False\<rparr>]"
  by (simp add: password_is_exchange code_is_exchange exchange_take_one token_request_def)

text \<open>
  Scenario C of the specification: the payload of the authorization-code plugin with
  code C1 and redirect URI https://app/cb.
\<close>

theorem phase1_request_witness:
  "take 1 (issued (code_state None None (answer 401 []))
      (snd (OidcAuthorizationCode_get_unscoped_auth_ref sample_fed sample_create
              (code_state None None (answer 401 []))))) =
     [\<lparr>http_method = ''POST'', url = ''https://op/token'',
       requests_auth = Some (''client'', ''hush''),
       data = Some [''grant_type'' \<mapsto> PyStr ''authorization_code'',
                    ''redirect_uri'' \<mapsto> PyStr ''https://app/cb'',
                    ''code'' \<mapsto> PyStr ''C1''],
       headers = None, authenticated = Some False\<rparr>]"
  using phase1_request [of "password_state None None (answer 401 [])" sample_fed sample_create
      "code_state None None (answer 401 [])"]
  by (simp add: code_state_def app_def fresh_session_def OidcAuthorizationCode_init_def
      OidcBase_init_def oidc_base.extend_def oidc_authorization_code.fields_def)

text \<open>
  C8. \<open>get_unscoped_auth_ref\<close>, in either flow, leaves the plugin instance as it
  found it, with every field of the base class and of the variant, whether the call
  returns or raises.
\<close>

theorem instance_unchanged:
  "self_obj (snd (OidcPassword_get_unscoped_auth_ref fed create hp)) = self_obj hp \<and>
   self_obj (snd (OidcAuthorizationCode_get_unscoped_auth_ref fed create hc)) = self_obj hc"
  by (simp add: password_is_exchange code_is_exchange exchange_self)

text \<open>
  C9. The Authorization header of the phase-2 request is "Bearer " followed by the
  string found in the phase-1 body, whatever that string is: nothing checks it. The
  empty string gives the header value "Bearer " (see the instance below).
\<close>

theorem bearer_is_plain_concatenation:
  "(phase1_response hp (snd (OidcPassword_get_unscoped_auth_ref fed create hp)) = Some rp \<and>
    is_2xx rp \<and> jsonBody rp = Some (JObj kp) \<and>
    map_of kp (access_token_type (self_obj hp)) = Some (JStr t) \<longrightarrow>
      map headers (drop 1 (issued hp (snd (OidcPassword_get_unscoped_auth_ref fed create hp)))) =
        [Some [''Authorization'' \<mapsto> ''Bearer '' @ t]]) \<and>
   (phase1_response hc (snd (OidcAuthorizationCode_get_unscoped_auth_ref fed create hc)) = Some rc \<and>
    is_2xx rc \<and> jsonBody rc = Some (JObj kc) \<and>
    map_of kc (access_token_type (self_obj hc)) = Some (JStr t) \<longrightarrow>
      map headers (drop 1 (issued hc (snd (OidcAuthorizationCode_get_unscoped_auth_ref fed create hc)))) =
        [Some [''Authorization'' \<mapsto> ''Bearer '' @ t]])"
proof -
  have "getitem (JObj kvs) k = Inr (JStr t)" if "map_of kvs k = Some (JStr t)" for kvs k
    using that by simp
  then show ?thesis
    using password_issued_two [of hp fed create rp "JObj kp" t]
      code_issued_two [of hc fed create rc "JObj kc" t]
    by (auto simp: federation_request_def)
qed

text \<open>
  The token endpoint answers with an empty access token: the second request is sent all
  the same, with the header value "Bearer ".
\<close>

theorem bearer_is_plain_concatenation_witness:
  "map headers (drop 1 (issued (password_state None None (answer 200 [(''access_token'', JStr [])]))
      (snd (OidcPassword_get_unscoped_auth_ref sample_fed sample_create
              (password_state None None (answer 200 [(''access_token'', JStr [])])))))) =
     [Some [''Authorization'' \<mapsto> ''Bearer '']] \<and>
   map headers (drop 1 (issued (code_state None None (answer 200 [(''access_token'', JStr [])]))
      (snd (OidcAuthorizationCode_get_unscoped_auth_ref sample_fed sample_create
              (code_state None None (answer 200 [(''access_token'', JStr [])])))))) =
     [Some [''Authorization'' \<mapsto> ''Bearer '']]"
  using bearer_is_plain_concatenation
    [of "password_state None None (answer 200 [(''access_token'', JStr [])])"
        sample_fed sample_create "answer 200 [(''access_token'', JStr [])]"
        "[(''access_token'', JStr [])]" "[]"
        "code_state None None (answer 200 [(''access_token'', JStr [])])"
        "answer 200 [(''access_token'', JStr [])]" "[(''access_token'', JStr [])]"]
  by (simp add: run_defs)

text \<open>
  C10. The two flows are one exchange that differs in the payload only: each method is
  the exchange of the specification at the payload it builds, and for a password
  instance and an authorization-code instance with equal shared fields and the same
  session, the exchange at one and the same payload returns the same result and leaves
  the same session (hence the same requests). The payloads the two methods build
  themselves always differ in their keys, so the statement is made for every payload.
\<close>

theorem flows_are_one_exchange:
  assumes "oidc_base.truncate (self_obj hp) = oidc_base.truncate (self_obj hc)"
    and "session_obj hp = session_obj hc"
  shows "OidcPassword_get_unscoped_auth_ref fed create hp =
           exchange fed create
             [''grant_type'' \<mapsto> PyStr (grant_type (self_obj hp)),
              ''username'' \<mapsto> username (self_obj hp),
              ''password'' \<mapsto> password (self_obj hp),
              ''scope'' \<mapsto> PyStr (scope (self_obj hp))] hp \<and>
         OidcAuthorizationCode_get_unscoped_auth_ref fed create hc =
           exchange fed create
             [''grant_type'' \<mapsto> PyStr (grant_type (self_obj hc)),
              ''redirect_uri'' \<mapsto> redirect_uri (self_obj hc),
              ''code'' \<mapsto> code (self_obj hc)] hc \<and>
         outcome (exchange fed create p hp) = outcome (exchange fed create p hc)"
proof -
  have "outcome (exchange fed create p hp) =
        outcome (exchange fed create p
                   \<lparr>self_obj = oidc_base.truncate (self_obj hp), session_obj = session_obj hp\<rparr>)"
    by (rule exchange_truncate)
  also have "\<dots> = outcome (exchange fed create p
                   \<lparr>self_obj = oidc_base.truncate (self_obj hc), session_obj = session_obj hc\<rparr>)"
    using assms by simp
  also have "\<dots> = outcome (exchange fed create p hc)"
    by (rule exchange_truncate [symmetric])
  finally show ?thesis
    by (simp add: password_is_exchange code_is_exchange)
qed

text \<open>
  Two instances that only differ in the fields of their variants.
\<close>

theorem flows_are_one_exchange_witness:
  "outcome (exchange sample_fed sample_create [''grant_type'' \<mapsto> PyStr ''password'']
              (password_state (Some ''password'') None (answer 200 [(''access_token'', JStr ''AT123'')]))) =
   outcome (exchange sample_fed sample_create [''grant_type'' \<mapsto> PyStr ''password'']
              (code_state (Some ''password'') None (answer 200 [(''access_token'', JStr ''AT123'')])))"
  using flows_are_one_exchange
    [of "password_state (Some ''password'') None (answer 200 [(''access_token'', JStr ''AT123'')])"
        "code_state (Some ''password'') None (answer 200 [(''access_token'', JStr ''AT123'')])"
        sample_fed sample_create "[''grant_type'' \<mapsto> PyStr ''password'']"]
  by (simp add: password_state_def code_state_def alice_def app_def
      OidcPassword_init_def OidcAuthorizationCode_init_def OidcBase_init_def
      oidc_base.extend_def oidc_base.truncate_def)

end
